theory Spec2Isabelle
  imports Main "HOL-Library.Word" "HOL-Library.AList"
begin

section \<open>Common types\<close>

text \<open>
  A Go \<^verbatim>\<open>error\<close> is modelled by its message; the nil error is \<open>None\<close>.
  A \<^verbatim>\<open>float64\<close> is kept as its 64-bit pattern: the library only copies such values,
  it never computes with them. The zero value is the all-zero pattern.
  An \<^verbatim>\<open>interface{}\<close> value (the auxiliary data of a model result) is opaque to the
  library; a small sum of scalars stands for it.
\<close>

type_synonym error = string

datatype float64 = Float64 "64 word"

definition float64_zero :: float64 where
  "float64_zero = Float64 0"

datatype any = AnyNil | AnyBool bool | AnyInt int | AnyString string

section \<open>configstore: plugin types\<close>

text \<open>
  \<^verbatim>\<open>type ModelPluginType int\<close> with the seven \<^verbatim>\<open>iota\<close> constants 0 to 6.
\<close>

type_synonym ModelPluginType = int

definition RequestHeaders :: ModelPluginType where "RequestHeaders = 0"
definition RequestBody :: ModelPluginType where "RequestBody = 1"
definition AllRequest :: ModelPluginType where "AllRequest = 2"
definition ResponseHeaders :: ModelPluginType where "ResponseHeaders = 3"
definition ResponseBody :: ModelPluginType where "ResponseBody = 4"
definition AllResponse :: ModelPluginType where "AllResponse = 5"
definition Everything :: ModelPluginType where "Everything = 6"

text \<open>The method \<^verbatim>\<open>String\<close> of \<^verbatim>\<open>ModelPluginType\<close>: a switch whose default is "Everything".\<close>

definition ModelPluginType_String :: "ModelPluginType \<Rightarrow> string" where
  "ModelPluginType_String t =
     (if t = RequestHeaders then ''RequestHeaders''
      else if t = RequestBody then ''RequestBody''
      else if t = AllRequest then ''AllRequest''
      else if t = ResponseHeaders then ''ResponseHeaders''
      else if t = ResponseBody then ''ResponseBody''
      else if t = AllResponse then ''AllResponse''
      else ''Everything'')"

text \<open>
  \<^verbatim>\<open>StringToPluginType\<close> returns a pair in Go; on an unknown name the pair is
  \<^verbatim>\<open>(-1, fmt.Errorf("invalid plugin type %s", textType))\<close>.
\<close>

definition StringToPluginType :: "string \<Rightarrow> ModelPluginType \<times> error option" where
  "StringToPluginType textType =
     (if textType = ''RequestHeaders'' then (RequestHeaders, None)
      else if textType = ''RequestBody'' then (RequestBody, None)
      else if textType = ''AllRequest'' then (AllRequest, None)
      else if textType = ''ResponseHeaders'' then (ResponseHeaders, None)
      else if textType = ''ResponseBody'' then (ResponseBody, None)
      else if textType = ''AllResponse'' then (AllResponse, None)
      else if textType = ''Everything'' then (Everything, None)
      else (- 1, Some (''invalid plugin type '' @ textType)))"

text \<open>The seven named values, in declaration order, and the seven names of the two switches.\<close>

definition namedPluginTypes :: "ModelPluginType list" where
  "namedPluginTypes =
     [RequestHeaders, RequestBody, AllRequest, ResponseHeaders, ResponseBody, AllResponse,
      Everything]"

definition pluginTypeNames :: "string list" where
  "pluginTypeNames =
     [''RequestHeaders'', ''RequestBody'', ''AllRequest'', ''ResponseHeaders'',
      ''ResponseBody'', ''AllResponse'', ''Everything'']"

section \<open>configstore: the store and its loading\<close>

record modelPluginConfig =
  mpc_ID :: string
  mpc_Path :: string
  mpc_Weight :: float64
  mpc_Threshold :: float64
  mpc_Params :: "string \<rightharpoonup> string"
  mpc_PluginType :: ModelPluginType
  mpc_Mode :: string
  mpc_Remote :: bool

record decisionPluginConfig =
  dpc_ID :: string
  dpc_Path :: string
  dpc_WAFweight :: float64
  dpc_DecisionBalance :: float64
  dpc_Params :: "string \<rightharpoonup> string"

text \<open>\<^verbatim>\<open>lg.LogLevel\<close> belongs to the logging library; it is an integer type there.\<close>

type_synonym LogLevel = int

record ConfigStore =
  ModelPlugins :: "string \<rightharpoonup> modelPluginConfig"
  DecisionPlugins :: "string \<rightharpoonup> decisionPluginConfig"
  LogPath :: string
  LogLevel :: LogLevel
  NatsURL :: string
  ApplicationId :: string

record configFileModelPlugin =
  cfm_ID :: string
  cfm_Path :: string
  cfm_Weight :: float64
  cfm_Threshold :: float64
  cfm_Params :: "string \<rightharpoonup> string"
  cfm_PluginType :: string
  cfm_Mode :: string
  cfm_Remote :: bool

record configFileDecisionPlugin =
  cfd_ID :: string
  cfd_Path :: string
  cfd_wafweight :: float64
  cfd_decisionbalance :: float64
  cfd_Params :: "string \<rightharpoonup> string"

record ConfigFileData =
  Logpath :: string
  Loglevel :: string
  Modelplugins :: "configFileModelPlugin list"
  Decisionplugins :: "configFileDecisionPlugin list"
  cf_NatsURL :: string

text \<open>
  A Go map read at a missing key gives the zero value of the element type.
\<close>

definition zero_modelPluginConfig :: modelPluginConfig where
  "zero_modelPluginConfig =
     \<lparr>mpc_ID = [], mpc_Path = [], mpc_Weight = float64_zero, mpc_Threshold = float64_zero,
      mpc_Params = Map.empty, mpc_PluginType = 0, mpc_Mode = [], mpc_Remote = False\<rparr>"

definition ModelPlugins_at :: "ConfigStore \<Rightarrow> string \<Rightarrow> modelPluginConfig" where
  "ModelPlugins_at c modelID =
     (case ModelPlugins c modelID of None \<Rightarrow> zero_modelPluginConfig | Some m \<Rightarrow> m)"

definition IsAsync :: "ConfigStore \<Rightarrow> string \<Rightarrow> bool" where
  "IsAsync c modelID = (mpc_Mode (ModelPlugins_at c modelID) = ''async'')"

text \<open>
  What \<^verbatim>\<open>SetConfig\<close> asks of the outside: the three file-system calls of
  \<^verbatim>\<open>checkLogging\<close> and \<^verbatim>\<open>checkConfig\<close>, and \<^verbatim>\<open>lg.StringToLogLevel\<close> of the
  logging library, which returns a level together with an error.
\<close>

record outside =
  os_Stat :: "string \<Rightarrow> error option"
  ioutil_WriteFile :: "string \<Rightarrow> error option"
  os_Remove :: "string \<Rightarrow> error option"
  lg_StringToLogLevel :: "string \<Rightarrow> LogLevel \<times> error option"

definition checkLogging :: "outside \<Rightarrow> ConfigFileData \<Rightarrow> error option" where
  "checkLogging env inConf =
     (if Logpath inConf = [] then Some ''log path empty''
      else case os_Stat env (Logpath inConf) of
             None \<Rightarrow> None
           | Some _ \<Rightarrow>
               (case ioutil_WriteFile env (Logpath inConf) of
                  None \<Rightarrow> os_Remove env (Logpath inConf)
                | Some e \<Rightarrow> Some e))"

fun checkModelplugins :: "outside \<Rightarrow> configFileModelPlugin list \<Rightarrow> error option" where
  "checkModelplugins env [] = None"
| "checkModelplugins env (modelP # rest) =
     (if cfm_Path modelP \<noteq> [] then
        (case os_Stat env (cfm_Path modelP) of
           Some e \<Rightarrow> Some (cfm_ID modelP @ '' plugin path '' @ cfm_Path modelP @ '': '' @ e)
         | None \<Rightarrow>
             if cfm_PluginType modelP = [] then
               Some (cfm_ID modelP @ '' plugin type cannot be empty, please provide a valid type'')
             else checkModelplugins env rest)
      else Some (cfm_ID modelP @ '' plugin path is empty, please provide a valid path''))"

fun checkDecisionplugins :: "outside \<Rightarrow> configFileDecisionPlugin list \<Rightarrow> error option" where
  "checkDecisionplugins env [] = None"
| "checkDecisionplugins env (decisionP # rest) =
     (if cfd_Path decisionP \<noteq> [] then
        (case os_Stat env (cfd_Path decisionP) of
           Some e \<Rightarrow>
             Some (cfd_ID decisionP @ '' plugin path '' @ cfd_Path decisionP
                   @ '' cannot be opened: '' @ e)
         | None \<Rightarrow> checkDecisionplugins env rest)
      else Some (cfd_ID decisionP @ '' plugin path is empty, please provide a valid path''))"

definition checkConfig :: "outside \<Rightarrow> ConfigFileData \<Rightarrow> error option" where
  "checkConfig env inConf =
     (case checkLogging env inConf of
        Some e \<Rightarrow> Some (''invalid log path '' @ Logpath inConf @ '': '' @ e)
      | None \<Rightarrow>
          (case checkModelplugins env (Modelplugins inConf) of
             Some e \<Rightarrow> Some e
           | None \<Rightarrow> checkDecisionplugins env (Decisionplugins inConf)))"

text \<open>
  The first loop of \<^verbatim>\<open>SetConfig\<close>: it fills the fresh map already stored in
  \<^verbatim>\<open>cs.ModelPlugins\<close> and returns from \<^verbatim>\<open>SetConfig\<close> at the first unknown type name.
\<close>

fun loadModelplugins ::
  "configFileModelPlugin list \<Rightarrow> (string \<rightharpoonup> modelPluginConfig) \<Rightarrow>
   (string \<rightharpoonup> modelPluginConfig) \<times> error option" where
  "loadModelplugins [] m = (m, None)"
| "loadModelplugins (modelP # rest) m =
     (case StringToPluginType (cfm_PluginType modelP) of
        (t, err) \<Rightarrow>
          let modelConfig =
                \<lparr>mpc_ID = cfm_ID modelP, mpc_Path = cfm_Path modelP,
                 mpc_Weight = cfm_Weight modelP, mpc_Threshold = cfm_Threshold modelP,
                 mpc_Params = cfm_Params modelP, mpc_PluginType = t,
                 mpc_Mode = cfm_Mode modelP, mpc_Remote = cfm_Remote modelP\<rparr>
          in case err of
               Some e \<Rightarrow> (m, Some e)
             | None \<Rightarrow> loadModelplugins rest (m(mpc_ID modelConfig \<mapsto> modelConfig)))"

fun loadDecisionplugins ::
  "configFileDecisionPlugin list \<Rightarrow> (string \<rightharpoonup> decisionPluginConfig) \<Rightarrow>
   (string \<rightharpoonup> decisionPluginConfig)" where
  "loadDecisionplugins [] m = m"
| "loadDecisionplugins (decisionP # rest) m =
     (let decisionConfig =
            \<lparr>dpc_ID = cfd_ID decisionP, dpc_Path = cfd_Path decisionP,
             dpc_WAFweight = cfd_wafweight decisionP,
             dpc_DecisionBalance = cfd_decisionbalance decisionP,
             dpc_Params = cfd_Params decisionP\<rparr>
      in loadDecisionplugins rest (m(dpc_ID decisionConfig \<mapsto> decisionConfig)))"

text \<open>
  \<^verbatim>\<open>SetConfig\<close> mutates the store through its pointer receiver; the model returns the
  store as the call leaves it, together with the returned error.
\<close>

definition SetConfig :: "outside \<Rightarrow> ConfigStore \<Rightarrow> ConfigFileData \<Rightarrow> ConfigStore \<times> error option" where
  "SetConfig env cs inConf =
     (case checkConfig env inConf of
        Some e \<Rightarrow> (cs, Some e)
      | None \<Rightarrow>
          let cs1 = cs\<lparr>LogPath := Logpath inConf\<rparr>;
              (lvl, err) = lg_StringToLogLevel env (Loglevel inConf);
              cs2 = cs1\<lparr>LogLevel := lvl\<rparr>
          in case err of
               Some e \<Rightarrow> (cs2, Some e)
             | None \<Rightarrow>
                 (case loadModelplugins (Modelplugins inConf) Map.empty of
                    (m, Some e) \<Rightarrow> (cs2\<lparr>ModelPlugins := m\<rparr>, Some e)
                  | (m, None) \<Rightarrow>
                      let cs3 = cs2\<lparr>ModelPlugins := m\<rparr>;
                          cs4 = cs3\<lparr>DecisionPlugins :=
                                  loadDecisionplugins (Decisionplugins inConf) Map.empty\<rparr>
                      in if cf_NatsURL inConf \<noteq> [] then (cs4\<lparr>NatsURL := cf_NatsURL inConf\<rparr>, None)
                         else (cs4\<lparr>NatsURL := ''localhost:4222''\<rparr>, None)))"

section \<open>pluginmanager: data\<close>

record ModelResults =
  ProbAttack :: float64
  Data :: "string \<rightharpoonup> any"

record ModelInput =
  TransactionId :: string
  Payload :: string

record DecisionInput =
  di_TransactionId :: string
  di_Results :: "string \<rightharpoonup> ModelResults"
  di_ModelWeight :: "string \<rightharpoonup> float64"
  di_WAFdata :: "string \<rightharpoonup> string"

record ModelTransmitionResults =
  mtr_TransactionId :: string
  mtr_ProbAttack :: float64
  mtr_Data :: "string \<rightharpoonup> any"
  mtr_Error :: "error option"

text \<open>The plugin handle \<^verbatim>\<open>p\<close> of a \<^verbatim>\<open>modelPlugin\<close> is opaque and left out.\<close>

record modelPlugin =
  pluginType :: ModelPluginType

record ModelStatus =
  ModelID :: string
  ms_ProbAttack :: float64
  Err :: "error option"

text \<open>
  Channels are heap objects. A channel is named by its index in the heap \<open>chans\<close>;
  \<^verbatim>\<open>make(chan T)\<close> appends a new one. All channels of the library are unbuffered, so a
  send parks its goroutine until a receive takes the value: \<open>senders\<close> holds the values
  of the goroutines parked in a send, oldest first. Each send of the library is the last
  action of its goroutine, so a parked sender has nothing left to do but hand its value
  over.
\<close>

type_synonym chan = nat

datatype msg = Signal string | Status ModelStatus

record channel =
  senders :: "msg list"
  closed :: bool

text \<open>
  The registries \<^verbatim>\<open>results\<close>, \<^verbatim>\<open>syncModelsChannels\<close> and \<^verbatim>\<open>asyncModelsChannels\<close>
  are \<^verbatim>\<open>sync.Map\<close>s keyed by transaction id. The inner maps of the two channel
  registries are keyed by \<^verbatim>\<open>t.String()\<close> and are ranged over, so they are association
  lists; the inner result map is keyed by model id.
\<close>

record PluginManager =
  modelPlugins :: "string \<rightharpoonup> modelPlugin"
  modelProcessFunc :: "string \<rightharpoonup> (ModelInput \<Rightarrow> ModelResults \<times> error option)"
  decisionCheckFunc :: "string \<rightharpoonup> (DecisionInput \<Rightarrow> bool \<times> error option)"
  decisionPlugins :: "string \<rightharpoonup> unit"
  results :: "string \<rightharpoonup> (string \<rightharpoonup> ModelResults)"
  syncModelsChannels :: "string \<rightharpoonup> (string \<times> chan) list"
  asyncModelsChannels :: "string \<rightharpoonup> (string \<times> chan) list"

text \<open>
  The message bus behind \<^verbatim>\<open>natConn\<close> is outside the library. \<open>nats_Publish\<close> is the
  error that \<^verbatim>\<open>Publish\<close> returns on a subject; \<open>nats_results\<close> is the decoded message
  that arrives on the subject \<^verbatim>\<open>modelId + "/results"\<close> in answer to a published input,
  if one arrives and parses.
\<close>

record bus =
  nats_Publish :: "string \<Rightarrow> error option"
  nats_results :: "string \<Rightarrow> ModelInput \<Rightarrow> ModelTransmitionResults option"

section \<open>wacecore: data\<close>

text \<open>
  \<^verbatim>\<open>Counter\<close> is an \<^verbatim>\<open>int64\<close> that grows by one with each call of \<^verbatim>\<open>Analyze\<close>
  and is set to 0 by \<^verbatim>\<open>CheckTransaction\<close>; each unit stands for a goroutine that is
  alive, so \<open>2 ^ 63\<close> is out of reach and the counter is kept as an unbounded integer.
\<close>

record transactionSync =
  Channel :: chan
  Counter :: int

text \<open>Calls into plugin code, recorded in the order they happen.\<close>

datatype invocation =
  ProcessCall string ModelInput
| CheckResultsCall string DecisionInput

text \<open>
  The state of the process: the package variables \<^verbatim>\<open>config\<close>, \<^verbatim>\<open>plugins\<close> and
  \<^verbatim>\<open>analysisMap\<close>, the channel heap, the bus with the messages published so far, and
  the calls made into plugins. Log lines and metrics are not part of the state.
\<close>

record world =
  config :: ConfigStore
  plugins :: PluginManager
  analysisMap :: "string \<rightharpoonup> transactionSync"
  chans :: "channel list"
  natConn :: bus
  published :: "(string \<times> ModelInput) list"
  invoked :: "invocation list"

text \<open>
  A call returns, panics (which ends the process) or never returns because it waits on a
  channel that nothing will serve.
\<close>

datatype 'a outcome = Returns 'a | Panics string | Blocks

fun and_then :: "'a outcome \<Rightarrow> ('a \<Rightarrow> 'b outcome) \<Rightarrow> 'b outcome" where
  "and_then (Returns x) f = f x"
| "and_then (Panics e) f = Panics e"
| "and_then Blocks f = Blocks"

section \<open>Channel operations\<close>

definition make_chan :: "world \<Rightarrow> chan \<times> world" where
  "make_chan w = (length (chans w), w\<lparr>chans := chans w @ [\<lparr>senders = [], closed = False\<rparr>]\<rparr>)"

text \<open>
  A send on a closed channel panics. An index outside the heap names no channel (in Go, a
  nil channel): a send on it waits for ever.
\<close>

definition send :: "world \<Rightarrow> chan \<Rightarrow> msg \<Rightarrow> world outcome" where
  "send w c m =
     (if c < length (chans w) then
        (if closed (chans w ! c) then Panics ''send on closed channel''
         else Returns (w\<lparr>chans := (chans w)[c := (chans w ! c)\<lparr>senders := senders (chans w ! c) @ [m]\<rparr>]\<rparr>))
      else Blocks)"

text \<open>
  \<open>recv_upto n w c\<close> performs up to \<open>n\<close> receives on \<open>c\<close>, each taking the value of the
  oldest parked sender. It returns how many receives are still to come when no sender is
  left (the receiver is then parked), and the state. A receive on a closed channel
  returns at once.
\<close>

fun recv_upto :: "nat \<Rightarrow> world \<Rightarrow> chan \<Rightarrow> nat \<times> world" where
  "recv_upto 0 w c = (0, w)"
| "recv_upto (Suc n) w c =
     (if c < length (chans w) then
        (case senders (chans w ! c) of
           [] \<Rightarrow> if closed (chans w ! c) then recv_upto n w c else (Suc n, w)
         | m # ms \<Rightarrow> recv_upto n (w\<lparr>chans := (chans w)[c := (chans w ! c)\<lparr>senders := ms\<rparr>]\<rparr>) c)
      else (Suc n, w))"

text \<open>
  \<^verbatim>\<open>close(ch)\<close> followed by \<^verbatim>\<open>for range ch {}\<close>. Closing a closed channel panics, and
  so does every goroutine parked in a send on the channel being closed; on an unbuffered
  channel the draining loop then ends at once.
\<close>

definition close_and_drain :: "world \<Rightarrow> chan \<Rightarrow> world outcome" where
  "close_and_drain w c =
     (if c < length (chans w) then
        (if closed (chans w ! c) then Panics ''close of closed channel''
         else if senders (chans w ! c) \<noteq> [] then Panics ''send on closed channel''
         else Returns (w\<lparr>chans := (chans w)[c := (chans w ! c)\<lparr>closed := True\<rparr>]\<rparr>))
      else Panics ''close of nil channel'')"

section \<open>pluginmanager: operations\<close>

definition PluginManager_InitTransaction :: "world \<Rightarrow> string \<Rightarrow> world" where
  "PluginManager_InitTransaction w transactionId =
     w\<lparr>plugins := (plugins w)\<lparr>results := (results (plugins w))(transactionId \<mapsto> Map.empty)\<rparr>\<rparr>"

text \<open>
  The \<^verbatim>\<open>Range\<close> of \<^verbatim>\<open>CloseTransaction\<close> over the channels registered for the
  transaction: each is closed and drained, and its key deleted from the inner map.
\<close>

fun close_all :: "world \<Rightarrow> chan list \<Rightarrow> world outcome" where
  "close_all w [] = Returns w"
| "close_all w (ch # rest) = and_then (close_and_drain w ch) (\<lambda>w'. close_all w' rest)"

definition PluginManager_CloseTransaction :: "world \<Rightarrow> string \<Rightarrow> world outcome" where
  "PluginManager_CloseTransaction w transactionId =
     (case syncModelsChannels (plugins w) transactionId of
        None \<Rightarrow> Returns w
      | Some transactionMap \<Rightarrow>
          and_then (close_all w (map snd transactionMap))
            (\<lambda>w1. Returns
               (w1\<lparr>plugins := (plugins w1)
                  \<lparr>syncModelsChannels := (syncModelsChannels (plugins w1))(transactionId := None),
                   results := (results (plugins w1))(transactionId := None)\<rparr>\<rparr>)))"

definition AddModelChannel :: "world \<Rightarrow> string \<Rightarrow> ModelPluginType \<Rightarrow> chan \<Rightarrow> string \<Rightarrow> world" where
  "AddModelChannel w transactionId t modelPlugStatus modelType =
     (if modelType = ''sync'' then
        (let inner = (case syncModelsChannels (plugins w) transactionId of
                        None \<Rightarrow> [] | Some m \<Rightarrow> m)
         in w\<lparr>plugins := (plugins w)\<lparr>syncModelsChannels :=
                (syncModelsChannels (plugins w))
                  (transactionId \<mapsto> AList.update (ModelPluginType_String t) modelPlugStatus inner)\<rparr>\<rparr>)
      else
        (let inner = (case asyncModelsChannels (plugins w) transactionId of
                        None \<Rightarrow> [] | Some m \<Rightarrow> m)
         in w\<lparr>plugins := (plugins w)\<lparr>asyncModelsChannels :=
                (asyncModelsChannels (plugins w))
                  (transactionId \<mapsto> AList.update (ModelPluginType_String t) modelPlugStatus inner)\<rparr>\<rparr>))"

definition RemoveAsyncModelChannel :: "world \<Rightarrow> string \<Rightarrow> ModelPluginType \<Rightarrow> world outcome" where
  "RemoveAsyncModelChannel w transactionId t =
     (case asyncModelsChannels (plugins w) transactionId of
        None \<Rightarrow> Returns w
      | Some channelMap \<Rightarrow>
          and_then
            (case map_of channelMap (ModelPluginType_String t) of
               Some ch \<Rightarrow>
                 and_then (close_and_drain w ch)
                   (\<lambda>w1. Returns (w1, AList.delete (ModelPluginType_String t) channelMap))
             | None \<Rightarrow> Returns (w, channelMap))
            (\<lambda>(w1, remaining).
               if length remaining = 0 then
                 Returns (w1\<lparr>plugins := (plugins w1)\<lparr>asyncModelsChannels :=
                            (asyncModelsChannels (plugins w1))(transactionId := None)\<rparr>\<rparr>)
               else
                 Returns (w1\<lparr>plugins := (plugins w1)\<lparr>asyncModelsChannels :=
                            (asyncModelsChannels (plugins w1))(transactionId \<mapsto> remaining)\<rparr>\<rparr>)))"

text \<open>
  \<^verbatim>\<open>AddToQueue\<close>: \<^verbatim>\<open>json.Marshal\<close> of two strings does not fail, so the returned error
  is that of \<^verbatim>\<open>Publish\<close>.
\<close>

definition AddToQueue :: "world \<Rightarrow> string \<Rightarrow> string \<Rightarrow> string \<Rightarrow> world \<times> error option" where
  "AddToQueue w modelId transactionId payload =
     (let payloadToSend = \<lparr>TransactionId = transactionId, Payload = payload\<rparr>
      in case nats_Publish (natConn w) modelId of
           Some e \<Rightarrow> (w, Some e)
         | None \<Rightarrow> (w\<lparr>published := published w @ [(modelId, payloadToSend)]\<rparr>, None))"

text \<open>
  \<^verbatim>\<open>Process\<close>. Calling the nil function that a missing key of \<^verbatim>\<open>modelProcessFunc\<close>
  yields panics. The format verb \<^verbatim>\<open>%v\<close> prints a plugin type through its \<^verbatim>\<open>String\<close>
  method.
\<close>

definition Process ::
  "world \<Rightarrow> string \<Rightarrow> string \<Rightarrow> string \<Rightarrow> ModelPluginType \<Rightarrow> chan \<Rightarrow> world outcome" where
  "Process w modelID transactionId payload t modelPlugStatus =
     (case modelPlugins (plugins w) modelID of
        None \<Rightarrow>
          send w modelPlugStatus
            (Status \<lparr>ModelID = modelID, ms_ProbAttack = float64_zero,
                     Err = Some ''model plugin not found''\<rparr>)
      | Some mp \<Rightarrow>
          if pluginType mp \<noteq> t then
            send w modelPlugStatus
              (Status \<lparr>ModelID = modelID, ms_ProbAttack = float64_zero,
                       Err = Some (''plugin type '' @ ModelPluginType_String (pluginType mp)
                                   @ '' cannot process a request with incompatible type ''
                                   @ ModelPluginType_String t)\<rparr>)
          else if mpc_Mode (ModelPlugins_at (config w) modelID) = ''async'' then
            send w modelPlugStatus
              (Status \<lparr>ModelID = modelID, ms_ProbAttack = float64_zero,
                       Err = Some ''model plugin is async''\<rparr>)
          else
            (case modelProcessFunc (plugins w) modelID of
               None \<Rightarrow> Panics ''invalid memory address or nil pointer dereference''
             | Some process \<Rightarrow>
                 (let inp = \<lparr>TransactionId = transactionId, Payload = payload\<rparr>;
                      w1 = w\<lparr>invoked := invoked w @ [ProcessCall modelID inp]\<rparr>
                  in case process inp of
                       (res, Some err) \<Rightarrow>
                         send w1 modelPlugStatus
                           (Status \<lparr>ModelID = modelID, ms_ProbAttack = float64_zero,
                                    Err = Some err\<rparr>)
                     | (res, None) \<Rightarrow>
                         (case results (plugins w1) transactionId of
                            None \<Rightarrow>
                              send w1 modelPlugStatus
                                (Status \<lparr>ModelID = modelID, ms_ProbAttack = float64_zero,
                                         Err = Some ''transaction results not found''\<rparr>)
                          | Some resultSyncMap \<Rightarrow>
                              send
                                (w1\<lparr>plugins := (plugins w1)\<lparr>results :=
                                      (results (plugins w1))
                                        (transactionId \<mapsto> resultSyncMap(modelID \<mapsto> res))\<rparr>\<rparr>)
                                modelPlugStatus
                                (Status \<lparr>ModelID = modelID, ms_ProbAttack = ProbAttack res,
                                         Err = None\<rparr>)))))"

definition CheckResult ::
  "world \<Rightarrow> string \<Rightarrow> string \<Rightarrow> (string \<rightharpoonup> string) \<Rightarrow> (bool \<times> error option) \<times> world" where
  "CheckResult w transactionId decisionId wafParams =
     (case decisionCheckFunc (plugins w) decisionId of
        None \<Rightarrow> ((False, Some ''decision plugin not found''), w)
      | Some checkResults \<Rightarrow>
          (case results (plugins w) transactionId of
             None \<Rightarrow> ((False, Some ''transaction results not found''), w)
           | Some transactionResults \<Rightarrow>
               (let inp =
                      \<lparr>di_TransactionId = transactionId,
                       di_Results = transactionResults,
                       di_ModelWeight =
                         (\<lambda>key. case transactionResults key of
                                  None \<Rightarrow> None
                                | Some _ \<Rightarrow> Some (mpc_Weight (ModelPlugins_at (config w) key))),
                       di_WAFdata = wafParams\<rparr>
                in (checkResults inp,
                    w\<lparr>invoked := invoked w @ [CheckResultsCall decisionId inp]\<rparr>))))"

text \<open>
  The callback that \<^verbatim>\<open>ModelResultsHandler\<close> subscribes, applied to a message that
  \<^verbatim>\<open>json.Unmarshal\<close> has decoded into \<open>data\<close>.
\<close>

definition ModelResultsHandler_msg ::
  "world \<Rightarrow> string \<Rightarrow> ModelTransmitionResults \<Rightarrow> world outcome" where
  "ModelResultsHandler_msg w modelId data =
     (let is_async = (mpc_Mode (ModelPlugins_at (config w) modelId) = ''async'');
          channel = (if is_async then asyncModelsChannels (plugins w) (mtr_TransactionId data)
                     else syncModelsChannels (plugins w) (mtr_TransactionId data))
      in case channel of
           None \<Rightarrow> Returns w
         | Some channelMap \<Rightarrow>
             (case map_of channelMap
                     (ModelPluginType_String (mpc_PluginType (ModelPlugins_at (config w) modelId))) of
                None \<Rightarrow> Returns w
              | Some modelChannel \<Rightarrow>
                  (case mtr_Error data of
                     Some e \<Rightarrow>
                       send w modelChannel
                         (Status \<lparr>ModelID = modelId, ms_ProbAttack = float64_zero, Err = Some e\<rparr>)
                   | None \<Rightarrow>
                       if \<not> is_async then
                         (case results (plugins w) (mtr_TransactionId data) of
                            None \<Rightarrow>
                              send w modelChannel
                                (Status \<lparr>ModelID = modelId, ms_ProbAttack = float64_zero,
                                         Err = Some ''transaction results not found''\<rparr>)
                          | Some resultSyncMap \<Rightarrow>
                              send
                                (w\<lparr>plugins := (plugins w)\<lparr>results :=
                                     (results (plugins w))
                                       (mtr_TransactionId data \<mapsto>
                                          resultSyncMap(modelId \<mapsto>
                                            \<lparr>ProbAttack = mtr_ProbAttack data,
                                             Data = mtr_Data data\<rparr>))\<rparr>\<rparr>)
                                modelChannel
                                (Status \<lparr>ModelID = modelId, ms_ProbAttack = mtr_ProbAttack data,
                                         Err = None\<rparr>))
                       else
                         send w modelChannel
                           (Status \<lparr>ModelID = modelId, ms_ProbAttack = mtr_ProbAttack data,
                                    Err = None\<rparr>))))"

section \<open>wacecore: operations\<close>

text \<open>
  The library runs goroutines. The model fixes one schedule: a goroutine started by
  \<^verbatim>\<open>go\<close> runs at once, as far as it can, that is to its end or to the channel
  operation on which it parks; an answer of the bus to a published input, when there is
  one, arrives at once as well. So \<^verbatim>\<open>Analyze\<close> here returns when its round has run to
  its "done" or has parked. What a goroutine stores it stores before it parks. The
  properties of rounds below are properties of this schedule.
\<close>

text \<open>
  \<^verbatim>\<open>addTransactionAnalysis\<close> builds a \<^verbatim>\<open>transactionSync\<close>, with a new channel, before
  \<^verbatim>\<open>LoadOrStore\<close> decides whether it is kept.
\<close>

definition addTransactionAnalysis :: "world \<Rightarrow> string \<Rightarrow> world" where
  "addTransactionAnalysis w transactionID =
     (case make_chan w of
        (ch, w1) \<Rightarrow>
          (case analysisMap w1 transactionID of
             None \<Rightarrow>
               w1\<lparr>analysisMap := (analysisMap w1)(transactionID \<mapsto> \<lparr>Channel = ch, Counter = 1\<rparr>)\<rparr>
           | Some v \<Rightarrow>
               w1\<lparr>analysisMap := (analysisMap w1)(transactionID \<mapsto> v\<lparr>Counter := Counter v + 1\<rparr>)\<rparr>))"

text \<open>What the first loop of \<^verbatim>\<open>callPlugins\<close> starts with \<^verbatim>\<open>go\<close>.\<close>

datatype launch =
  GoAddToQueue string string string
| GoProcess string string string ModelPluginType chan

text \<open>
  The first loop of \<^verbatim>\<open>callPlugins\<close>, over \<^verbatim>\<open>models\<close>; the accumulator holds the
  goroutines started so far, \<^verbatim>\<open>syncCounter\<close> and \<^verbatim>\<open>asyncCounter\<close>.
\<close>

fun callPlugins_loop ::
  "ConfigStore \<Rightarrow> string \<Rightarrow> ModelPluginType \<Rightarrow> string \<Rightarrow> chan \<Rightarrow> string list \<Rightarrow>
   launch list \<times> nat \<times> nat \<Rightarrow> launch list \<times> nat \<times> nat" where
  "callPlugins_loop conf input t transactionId modelPlugStatus [] acc = acc"
| "callPlugins_loop conf input t transactionId modelPlugStatus (modelId # rest)
     (started, syncCounter, asyncCounter) =
     callPlugins_loop conf input t transactionId modelPlugStatus rest
       (if ModelPlugins conf modelId = None then (started, syncCounter, asyncCounter)
        else if mpc_PluginType (ModelPlugins_at conf modelId) \<noteq> t then
          (started, syncCounter, asyncCounter)
        else if IsAsync conf modelId then
          (started @ [GoAddToQueue modelId transactionId input], syncCounter, asyncCounter + 1)
        else if mpc_Remote (ModelPlugins_at conf modelId) then
          (started @ [GoAddToQueue modelId transactionId input], syncCounter + 1, asyncCounter)
        else
          (started @ [GoProcess modelId transactionId input t modelPlugStatus],
           syncCounter + 1, asyncCounter))"

text \<open>
  One started goroutine, run at once. The error of \<^verbatim>\<open>AddToQueue\<close> is dropped by the
  \<^verbatim>\<open>go\<close> statement. A published input is answered by the bus or not; an answer goes
  through the subscribed callback.
\<close>

fun run_launch :: "world \<Rightarrow> launch \<Rightarrow> world outcome" where
  "run_launch w (GoProcess modelId transactionId input t modelPlugStatus) =
     Process w modelId transactionId input t modelPlugStatus"
| "run_launch w (GoAddToQueue modelId transactionId input) =
     (case AddToQueue w modelId transactionId input of
        (w1, Some e) \<Rightarrow> Returns w1
      | (w1, None) \<Rightarrow>
          (case nats_results (natConn w1) modelId \<lparr>TransactionId = transactionId, Payload = input\<rparr> of
             None \<Rightarrow> Returns w1
           | Some data \<Rightarrow> ModelResultsHandler_msg w1 modelId data))"

fun run_all :: "world \<Rightarrow> launch list \<Rightarrow> world outcome" where
  "run_all w [] = Returns w"
| "run_all w (g # rest) = and_then (run_launch w g) (\<lambda>w'. run_all w' rest)"

text \<open>
  The detached goroutine of \<^verbatim>\<open>callPlugins\<close>: it receives \<^verbatim>\<open>asyncCounter\<close> statuses and
  then removes the asynchronous channel; while statuses are missing it stays parked.
\<close>

definition await_async ::
  "world \<Rightarrow> nat \<Rightarrow> chan \<Rightarrow> string \<Rightarrow> ModelPluginType \<Rightarrow> world outcome" where
  "await_async w asyncCounter asyncModelPlugStatus transactionId t =
     (case recv_upto asyncCounter w asyncModelPlugStatus of
        (0, w1) \<Rightarrow> RemoveAsyncModelChannel w1 transactionId t
      | (Suc missing, w1) \<Rightarrow> Returns w1)"

text \<open>
  \<^verbatim>\<open>callPlugins\<close>. After the loop over the synchronous statuses it loads the
  transaction from \<^verbatim>\<open>analysisMap\<close> and sends "done" on its channel; while a status is
  missing it stays parked in the loop and sends nothing.
\<close>

definition callPlugins ::
  "world \<Rightarrow> string \<Rightarrow> string list \<Rightarrow> ModelPluginType \<Rightarrow> string \<Rightarrow> world outcome" where
  "callPlugins w input models t transactionId =
     (case make_chan w of
        (modelPlugStatus, w1) \<Rightarrow>
     (case make_chan w1 of
        (asyncModelPlugStatus, w2) \<Rightarrow>
     (let w3 = AddModelChannel w2 transactionId t asyncModelPlugStatus ''async'';
          w4 = AddModelChannel w3 transactionId t modelPlugStatus ''sync''
      in case callPlugins_loop (config w4) input t transactionId modelPlugStatus models ([], 0, 0) of
           (started, syncCounter, asyncCounter) \<Rightarrow>
             and_then (run_all w4 started)
               (\<lambda>w5. and_then (await_async w5 asyncCounter asyncModelPlugStatus transactionId t)
                  (\<lambda>w6. case recv_upto syncCounter w6 modelPlugStatus of
                           (Suc missing, w7) \<Rightarrow> Returns w7
                         | (0, w7) \<Rightarrow>
                             (case analysisMap w7 transactionId of
                                None \<Rightarrow> Returns w7
                              | Some v \<Rightarrow> send w7 (Channel v) (Signal ''done'')))))))"

definition InitTransaction :: "world \<Rightarrow> string \<Rightarrow> world" where
  "InitTransaction w transactionId =
     (case make_chan w of
        (ch, w1) \<Rightarrow>
          PluginManager_InitTransaction
            (w1\<lparr>analysisMap := (analysisMap w1)(transactionId \<mapsto> \<lparr>Channel = ch, Counter = 0\<rparr>)\<rparr>)
            transactionId)"

definition Analyze ::
  "world \<Rightarrow> string \<Rightarrow> string \<Rightarrow> string \<Rightarrow> string list \<Rightarrow> (error option \<times> world) outcome" where
  "Analyze w modelsTypeAsString transactionId payload models =
     (if length models > 0 then
        (case StringToPluginType modelsTypeAsString of
           (modelsType, Some err) \<Rightarrow> Returns (Some err, w)
         | (modelsType, None) \<Rightarrow>
             and_then
               (callPlugins (addTransactionAnalysis w transactionId) payload models modelsType
                  transactionId)
               (\<lambda>w'. Returns (None, w')))
      else Returns (None, w))"

text \<open>
  \<^verbatim>\<open>CheckTransaction\<close>. The loop receives \<^verbatim>\<open>int(sync.Counter)\<close> times; when fewer
  senders are parked on the channel the call never returns. The counter is written
  through the pointer loaded at the start, which is the entry of the map.
\<close>

definition CheckTransaction ::
  "world \<Rightarrow> string \<Rightarrow> string \<Rightarrow> (string \<rightharpoonup> string) \<Rightarrow> ((bool \<times> error option) \<times> world) outcome" where
  "CheckTransaction w transactionID decisionPlugin wafParams =
     (case analysisMap w transactionID of
        None \<Rightarrow>
          Returns ((False, Some (''transaction with id '' @ transactionID @ '' does not exist'')), w)
      | Some sync \<Rightarrow>
          (case recv_upto (nat (Counter sync)) w (Channel sync) of
             (Suc missing, w1) \<Rightarrow> Blocks
           | (0, w1) \<Rightarrow>
               (let w2 = w1\<lparr>analysisMap := (analysisMap w1)(transactionID \<mapsto> sync\<lparr>Counter := 0\<rparr>)\<rparr>
                in Returns (CheckResult w2 transactionID decisionPlugin wafParams))))"

definition CloseTransaction :: "world \<Rightarrow> string \<Rightarrow> world outcome" where
  "CloseTransaction w transactionID =
     and_then (PluginManager_CloseTransaction w transactionID)
       (\<lambda>w1. Returns (w1\<lparr>analysisMap := (analysisMap w1)(transactionID := None)\<rparr>))"

section \<open>Example configurations and states\<close>

text \<open>
  An outside for the examples, in which every path exists.
  Modelled from the spec: \<^verbatim>\<open>lg.StringToLogLevel\<close> belongs to the logging library, which
  is not part of the repository; the configuration schema names the four levels ERROR,
  WARN, INFO and DEBUG and every other name is an error. The numbers of the levels, the
  level returned with an error and the text of the error are chosen here; no property
  below depends on them.
\<close>

definition example_outside :: outside where
  "example_outside =
     \<lparr>os_Stat = (\<lambda>path. None), ioutil_WriteFile = (\<lambda>path. None), os_Remove = (\<lambda>path. None),
      lg_StringToLogLevel =
        (\<lambda>s. if s = ''ERROR'' then (0, None) else if s = ''WARN'' then (1, None)
             else if s = ''INFO'' then (2, None) else if s = ''DEBUG'' then (3, None)
             else (- 1, Some (''invalid log level '' @ s)))\<rparr>"

text \<open>
  Model plugins accepting request headers, one of each kind (local, remote,
  asynchronous) and a local one whose process function fails, a model plugin declared
  for everything, and one decision plugin.
\<close>

definition example_model ::
  "string \<Rightarrow> ModelPluginType \<Rightarrow> string \<Rightarrow> bool \<Rightarrow> modelPluginConfig" where
  "example_model name t mode remote =
     \<lparr>mpc_ID = name, mpc_Path = ''_plugins/model/trivial.so'', mpc_Weight = Float64 1,
      mpc_Threshold = float64_zero, mpc_Params = Map.empty, mpc_PluginType = t,
      mpc_Mode = mode, mpc_Remote = remote\<rparr>"

definition example_config :: ConfigStore where
  "example_config =
     \<lparr>ModelPlugins =
        [''local'' \<mapsto> example_model ''local'' RequestHeaders ''sync'' False,
         ''remote'' \<mapsto> example_model ''remote'' RequestHeaders ''sync'' True,
         ''later'' \<mapsto> example_model ''later'' RequestHeaders ''async'' False,
         ''any'' \<mapsto> example_model ''any'' Everything ''sync'' False,
         ''faulty'' \<mapsto> example_model ''faulty'' RequestHeaders ''sync'' False],
      DecisionPlugins =
        [''simple'' \<mapsto>
           \<lparr>dpc_ID = ''simple'', dpc_Path = ''_plugins/decision/simple.so'',
            dpc_WAFweight = float64_zero, dpc_DecisionBalance = float64_zero,
            dpc_Params = Map.empty\<rparr>],
      LogPath = ''/var/log/wace.log'', LogLevel = 1, NatsURL = ''nats:4222'',
      ApplicationId = []\<rparr>"

definition example_result :: ModelResults where
  "example_result = \<lparr>ProbAttack = Float64 42, Data = Map.empty\<rparr>"

definition zero_result :: ModelResults where
  "zero_result = \<lparr>ProbAttack = float64_zero, Data = Map.empty\<rparr>"

definition example_plugins :: PluginManager where
  "example_plugins =
     \<lparr>modelPlugins =
        [''local'' \<mapsto> \<lparr>pluginType = RequestHeaders\<rparr>,
         ''remote'' \<mapsto> \<lparr>pluginType = RequestHeaders\<rparr>,
         ''later'' \<mapsto> \<lparr>pluginType = RequestHeaders\<rparr>,
         ''any'' \<mapsto> \<lparr>pluginType = Everything\<rparr>,
         ''faulty'' \<mapsto> \<lparr>pluginType = RequestHeaders\<rparr>],
      modelProcessFunc =
        [''local'' \<mapsto> (\<lambda>inp. (example_result, None)),
         ''any'' \<mapsto> (\<lambda>inp. (example_result, None)),
         ''faulty'' \<mapsto> (\<lambda>inp. (zero_result, Some ''model failed''))],
      decisionCheckFunc = [''simple'' \<mapsto> (\<lambda>inp. (False, None))],
      decisionPlugins = [''simple'' \<mapsto> ()],
      results = Map.empty,
      syncModelsChannels = Map.empty,
      asyncModelsChannels = Map.empty\<rparr>"

text \<open>A bus that accepts every message and never answers, and one that answers each.\<close>

definition silent_bus :: bus where
  "silent_bus = \<lparr>nats_Publish = (\<lambda>subject. None), nats_results = (\<lambda>subject inp. None)\<rparr>"

definition answering_bus :: bus where
  "answering_bus =
     \<lparr>nats_Publish = (\<lambda>subject. None),
      nats_results =
        (\<lambda>subject inp.
           Some \<lparr>mtr_TransactionId = TransactionId inp, mtr_ProbAttack = Float64 7,
                 mtr_Data = Map.empty, mtr_Error = None\<rparr>)\<rparr>"

definition example_world :: "bus \<Rightarrow> world" where
  "example_world b =
     \<lparr>config = example_config, plugins = example_plugins, analysisMap = Map.empty,
      chans = [], natConn = b, published = [], invoked = []\<rparr>"

text \<open>A store loaded earlier, and two configuration values that \<^verbatim>\<open>SetConfig\<close> rejects.\<close>

definition bad_loglevel :: ConfigFileData where
  "bad_loglevel =
     \<lparr>Logpath = ''/dev/null'', Loglevel = ''VERBOSE'', Modelplugins = [],
      Decisionplugins = [], cf_NatsURL = []\<rparr>"

definition bad_logpath :: ConfigFileData where
  "bad_logpath =
     \<lparr>Logpath = [], Loglevel = ''VERBOSE'', Modelplugins = [],
      Decisionplugins = [], cf_NatsURL = []\<rparr>"

text \<open>A configuration whose second model plugin has an unknown segment-type name.\<close>

definition bad_plugintype :: ConfigFileData where
  "bad_plugintype =
     \<lparr>Logpath = ''/dev/null'', Loglevel = ''ERROR'',
      Modelplugins =
        [\<lparr>cfm_ID = ''first'', cfm_Path = ''_plugins/model/trivial.so'', cfm_Weight = Float64 1,
          cfm_Threshold = float64_zero, cfm_Params = Map.empty,
          cfm_PluginType = ''RequestHeaders'', cfm_Mode = ''sync'', cfm_Remote = False\<rparr>,
         \<lparr>cfm_ID = ''second'', cfm_Path = ''_plugins/model/trivial.so'', cfm_Weight = Float64 1,
          cfm_Threshold = float64_zero, cfm_Params = Map.empty,
          cfm_PluginType = ''InvalidPluginType'', cfm_Mode = ''sync'', cfm_Remote = False\<rparr>],
      Decisionplugins = [], cf_NatsURL = ''other:4222''\<rparr>"

section \<open>Callers\<close>

text \<open>
  A caller of the library: a sequence of the four operations on transactions, each
  started when the one before has returned. The values that \<^verbatim>\<open>Analyze\<close> and
  \<^verbatim>\<open>CheckTransaction\<close> return are dropped here.
\<close>

datatype api_call =
  CallInitTransaction string
| CallAnalyze string string string "string list"
| CallCheckTransaction string string "string \<rightharpoonup> string"
| CallCloseTransaction string

fun api :: "world \<Rightarrow> api_call \<Rightarrow> world outcome" where
  "api w (CallInitTransaction transactionId) = Returns (InitTransaction w transactionId)"
| "api w (CallAnalyze modelsTypeAsString transactionId payload models) =
     and_then (Analyze w modelsTypeAsString transactionId payload models)
       (\<lambda>(err, w'). Returns w')"
| "api w (CallCheckTransaction transactionID decisionPlugin wafParams) =
     and_then (CheckTransaction w transactionID decisionPlugin wafParams)
       (\<lambda>(res, w'). Returns w')"
| "api w (CallCloseTransaction transactionID) = CloseTransaction w transactionID"

fun calls :: "world \<Rightarrow> api_call list \<Rightarrow> world outcome" where
  "calls w [] = Returns w"
| "calls w (c # rest) = and_then (api w c) (\<lambda>w'. calls w' rest)"

section \<open>What a round needs from its surroundings\<close>










text \<open>
  The state after \<^verbatim>\<open>InitTransaction\<close>, one \<^verbatim>\<open>Analyze\<close> for request headers over the
  asynchronous model \<^verbatim>\<open>later\<close> with a bus that has not answered, \<^verbatim>\<open>CheckTransaction\<close>
  and \<^verbatim>\<open>CloseTransaction\<close>, all on \<^verbatim>\<open>t1\<close>: channel 2, the round's channel for
  synchronous statuses, is closed; channel 3 still waits for the asynchronous status.
\<close>

definition closed_world :: world where
  "closed_world =
     (example_world silent_bus)
       \<lparr>published := [(''later'', \<lparr>TransactionId = ''t1'', Payload = ''hdrs''\<rparr>)],
        invoked :=
          [CheckResultsCall ''simple''
             \<lparr>di_TransactionId = ''t1'', di_Results = Map.empty, di_ModelWeight = Map.empty,
              di_WAFdata = Map.empty\<rparr>],
        chans := [\<lparr>senders = [], closed = False\<rparr>, \<lparr>senders = [], closed = False\<rparr>,
                  \<lparr>senders = [], closed = True\<rparr>, \<lparr>senders = [], closed = False\<rparr>],
        plugins := example_plugins
          \<lparr>asyncModelsChannels := [''t1'' \<mapsto> [(''RequestHeaders'', 3)]],
           syncModelsChannels := Map.empty,
           results := Map.empty\<rparr>,
        analysisMap := Map.empty\<rparr>"

section \<open>Properties of configstore\<close>

lemmas ModelPluginType_defs =
  RequestHeaders_def RequestBody_def AllRequest_def ResponseHeaders_def
  ResponseBody_def AllResponse_def Everything_def

text \<open>
  Claim C9. The conversion between a segment type and its name is a bijection over the
  seven named values: converting the name of each of the seven values back gives that
  value and no error, the seven names are pairwise distinct, they are the seven names
  that \<^verbatim>\<open>StringToPluginType\<close> knows, and each of these names converts without error to
  a value whose name it is.
\<close>

theorem plugin_type_name_roundtrip:
  "map (\<lambda>t. StringToPluginType (ModelPluginType_String t)) namedPluginTypes
     = map (\<lambda>t. (t, None)) namedPluginTypes
   \<and> distinct (map ModelPluginType_String namedPluginTypes)
   \<and> distinct namedPluginTypes
   \<and> map ModelPluginType_String namedPluginTypes = pluginTypeNames
   \<and> map (\<lambda>s. case StringToPluginType s of (t, e) \<Rightarrow> (ModelPluginType_String t, e))
        pluginTypeNames
     = map (\<lambda>s. (s, None)) pluginTypeNames"
  by (simp add: namedPluginTypes_def pluginTypeNames_def StringToPluginType_def
      ModelPluginType_String_def ModelPluginType_defs)

text \<open>
  Claim C4 says that a failing \<^verbatim>\<open>SetConfig\<close> leaves every field of the store as it
  was. It does not when the failure is an unknown log level: the log path is assigned
  before the level is converted. Here the store holds the log path
  \<^verbatim>\<open>/var/log/wace.log\<close>, the rejected configuration names \<^verbatim>\<open>/dev/null\<close> and the
  level \<^verbatim>\<open>VERBOSE\<close>; after the failed call the store holds \<^verbatim>\<open>/dev/null\<close>.
\<close>

theorem SetConfig_partial_load_counterexample:
  "snd (SetConfig example_outside example_config bad_loglevel) \<noteq> None
   \<and> LogPath example_config = ''/var/log/wace.log''
   \<and> LogPath (fst (SetConfig example_outside example_config bad_loglevel)) = ''/dev/null''
   \<and> fst (SetConfig example_outside example_config bad_loglevel) \<noteq> example_config"
proof -
  have run: "SetConfig example_outside example_config bad_loglevel
      = (example_config\<lparr>LogPath := ''/dev/null'', LogLevel := - 1\<rparr>,
         Some ''invalid log level VERBOSE'')"
    by (simp add: SetConfig_def checkConfig_def checkLogging_def example_outside_def
        bad_loglevel_def)
  have path: "LogPath example_config = ''/var/log/wace.log''"
    by (simp add: example_config_def)
  have "LogPath (example_config\<lparr>LogPath := ''/dev/null'', LogLevel := - 1\<rparr>)
          \<noteq> LogPath example_config"
    by (simp add: path)
  then have "example_config\<lparr>LogPath := ''/dev/null'', LogLevel := - 1\<rparr> \<noteq> example_config"
    by metis
  with run path show ?thesis by simp
qed

text \<open>
  An unknown segment-type name is found while the model plugins are loaded: by then the
  log path and level are written and the map of model plugins is a new one, holding the
  plugins that came before the unknown name. The decision plugins and the bus address are
  still the old ones.
\<close>

lemma SetConfig_unknown_plugin_type:
  "snd (SetConfig example_outside example_config bad_plugintype)
     = Some ''invalid plugin type InvalidPluginType''
   \<and> LogPath (fst (SetConfig example_outside example_config bad_plugintype)) = ''/dev/null''
   \<and> LogLevel (fst (SetConfig example_outside example_config bad_plugintype)) = 0
   \<and> dom (ModelPlugins (fst (SetConfig example_outside example_config bad_plugintype)))
       = {''first''}
   \<and> DecisionPlugins (fst (SetConfig example_outside example_config bad_plugintype))
       = DecisionPlugins example_config
   \<and> NatsURL (fst (SetConfig example_outside example_config bad_plugintype)) = ''nats:4222''"
  by (simp add: SetConfig_def checkConfig_def checkLogging_def example_outside_def
      bad_plugintype_def StringToPluginType_def example_config_def)

text \<open>
  Claim C4, amended. When \<^verbatim>\<open>SetConfig\<close> returns an error, the decision plugins, the bus
  address and the application id of the store are as before the call; and when the error
  is one of \<^verbatim>\<open>checkConfig\<close> (an empty or unusable log path, an empty or unreadable
  plugin path, an empty segment-type name), the whole store is as before the call.
\<close>

theorem SetConfig_failure_frame:
  assumes "snd (SetConfig env cs inConf) \<noteq> None"
  shows "DecisionPlugins (fst (SetConfig env cs inConf)) = DecisionPlugins cs
       \<and> NatsURL (fst (SetConfig env cs inConf)) = NatsURL cs
       \<and> ApplicationId (fst (SetConfig env cs inConf)) = ApplicationId cs
       \<and> (checkConfig env inConf \<noteq> None \<longrightarrow> fst (SetConfig env cs inConf) = cs)"
  using assms
  by (auto simp: SetConfig_def Let_def split: option.splits prod.splits if_splits)

theorem SetConfig_failure_frame_witness:
  "snd (SetConfig example_outside example_config bad_loglevel) \<noteq> None
   \<and> DecisionPlugins (fst (SetConfig example_outside example_config bad_loglevel))
       = DecisionPlugins example_config
   \<and> NatsURL (fst (SetConfig example_outside example_config bad_loglevel)) = ''nats:4222''
   \<and> checkConfig example_outside bad_logpath \<noteq> None
   \<and> fst (SetConfig example_outside example_config bad_logpath) = example_config"
proof -
  have a: "snd (SetConfig example_outside example_config bad_loglevel) \<noteq> None"
    by (simp add: SetConfig_def checkConfig_def checkLogging_def example_outside_def
        bad_loglevel_def)
  have b: "checkConfig example_outside bad_logpath \<noteq> None"
    by (simp add: checkConfig_def checkLogging_def bad_logpath_def)
  then have c: "snd (SetConfig example_outside example_config bad_logpath) \<noteq> None"
    by (auto simp: SetConfig_def)
  have n: "NatsURL example_config = ''nats:4222''"
    by (simp add: example_config_def)
  from SetConfig_failure_frame [OF a] SetConfig_failure_frame [OF c] a b n
  show ?thesis by simp
qed

section \<open>Properties of the coordinator\<close>

text \<open>
  The fields of the example states, and the equations that evaluate the operations on
  them.
\<close>

lemma example_world_fields:
  "config (example_world b) = example_config"
  "plugins (example_world b) = example_plugins"
  "analysisMap (example_world b) = Map.empty"
  "chans (example_world b) = []"
  "natConn (example_world b) = b"
  "published (example_world b) = []"
  "invoked (example_world b) = []"
  by (simp_all add: example_world_def)

lemma example_plugins_fields:
  "modelPlugins example_plugins =
     [''local'' \<mapsto> \<lparr>pluginType = RequestHeaders\<rparr>,
      ''remote'' \<mapsto> \<lparr>pluginType = RequestHeaders\<rparr>,
      ''later'' \<mapsto> \<lparr>pluginType = RequestHeaders\<rparr>,
      ''any'' \<mapsto> \<lparr>pluginType = Everything\<rparr>,
      ''faulty'' \<mapsto> \<lparr>pluginType = RequestHeaders\<rparr>]"
  "modelProcessFunc example_plugins =
     [''local'' \<mapsto> (\<lambda>inp. (example_result, None)),
      ''any'' \<mapsto> (\<lambda>inp. (example_result, None)),
      ''faulty'' \<mapsto> (\<lambda>inp. (zero_result, Some ''model failed''))]"
  "decisionCheckFunc example_plugins = [''simple'' \<mapsto> (\<lambda>inp. (False, None))]"
  "results example_plugins = Map.empty"
  "syncModelsChannels example_plugins = Map.empty"
  "asyncModelsChannels example_plugins = Map.empty"
  by (simp_all add: example_plugins_def)

lemma example_config_fields:
  "ModelPlugins example_config =
     [''local'' \<mapsto> example_model ''local'' RequestHeaders ''sync'' False,
      ''remote'' \<mapsto> example_model ''remote'' RequestHeaders ''sync'' True,
      ''later'' \<mapsto> example_model ''later'' RequestHeaders ''async'' False,
      ''any'' \<mapsto> example_model ''any'' Everything ''sync'' False,
      ''faulty'' \<mapsto> example_model ''faulty'' RequestHeaders ''sync'' False]"
  by (simp add: example_config_def)

lemma example_model_fields:
  "mpc_PluginType (example_model name t mode remote) = t"
  "mpc_Mode (example_model name t mode remote) = mode"
  "mpc_Remote (example_model name t mode remote) = remote"
  "mpc_Weight (example_model name t mode remote) = Float64 1"
  by (simp_all add: example_model_def)

lemma bus_fields:
  "nats_Publish silent_bus = (\<lambda>subject. None)"
  "nats_results silent_bus = (\<lambda>subject inp. None)"
  "nats_Publish answering_bus = (\<lambda>subject. None)"
  "nats_results answering_bus =
     (\<lambda>subject inp.
        Some \<lparr>mtr_TransactionId = TransactionId inp, mtr_ProbAttack = Float64 7,
              mtr_Data = Map.empty, mtr_Error = None\<rparr>)"
  by (simp_all add: silent_bus_def answering_bus_def)

lemmas model_defs =
  InitTransaction_def make_chan_def PluginManager_InitTransaction_def Analyze_def
  StringToPluginType_def addTransactionAnalysis_def callPlugins_def AddModelChannel_def
  ModelPluginType_String_def ModelPluginType_defs IsAsync_def ModelPlugins_at_def
  AddToQueue_def Process_def ModelResultsHandler_msg_def send_def await_async_def
  RemoveAsyncModelChannel_def close_and_drain_def CheckTransaction_def CheckResult_def
  CloseTransaction_def PluginManager_CloseTransaction_def
  example_world_fields example_plugins_fields example_config_fields example_model_fields
  bus_fields float64_zero_def

text \<open>A send on an open channel parks exactly the one value on it.\<close>

lemma send_open:
  "c < length (chans w) \<Longrightarrow> \<not> closed (chans w ! c) \<Longrightarrow>
   send w c m
     = Returns (w\<lparr>chans := (chans w)[c := (chans w ! c)\<lparr>senders := senders (chans w ! c) @ [m]\<rparr>]\<rparr>)"
  by (simp add: send_def)

text \<open>
  Claim C7. For a transaction id that is not in \<^verbatim>\<open>analysisMap\<close> (never initialised, or
  closed), \<^verbatim>\<open>CheckTransaction\<close> returns false with the error "transaction with id ...
  does not exist", and the state is the one before the call: nothing is received,
  no counter is written and the decision plugin is not called (the record of plugin calls
  is part of the state).
\<close>

theorem CheckTransaction_unknown_transaction:
  assumes "analysisMap w transactionID = None"
  shows "CheckTransaction w transactionID decisionPlugin wafParams
           = Returns ((False, Some (''transaction with id '' @ transactionID
                                     @ '' does not exist'')), w)"
  using assms by (simp add: CheckTransaction_def)

theorem CheckTransaction_unknown_transaction_witness:
  "analysisMap (example_world silent_bus) ''never'' = None
   \<and> CheckTransaction (example_world silent_bus) ''never'' ''simple'' Map.empty
       = Returns ((False, Some ''transaction with id never does not exist''),
                  example_world silent_bus)"
proof -
  have a: "analysisMap (example_world silent_bus) ''never'' = None"
    by (simp add: example_world_fields)
  from CheckTransaction_unknown_transaction [OF a, of "''simple''" Map.empty] a
  show ?thesis by simp
qed

text \<open>
  Claim C8. With an empty model list \<^verbatim>\<open>Analyze\<close> returns nil for every segment name,
  known or not, and every transaction id, and leaves the state as it was: no counter is
  incremented, no \<^verbatim>\<open>transactionSync\<close> is created and no channel is made or registered.
\<close>

theorem Analyze_empty_models:
  "Analyze w modelsTypeAsString transactionId payload [] = Returns (None, w)"
  by (simp add: Analyze_def)

text \<open>
  Claim C10. \<^verbatim>\<open>InitTransaction\<close> on a transaction id that is live replaces its state
  whatever that state is: the entry of \<^verbatim>\<open>analysisMap\<close> becomes a record with counter 0
  and a channel made by this call, which is not the channel of the old record and has no
  parked sender; the channels that existed keep their state, so a "done" parked on the
  old channel stays there and is never received through the new record; and the result
  store of the transaction becomes the empty map.
\<close>

theorem InitTransaction_replaces:
  assumes "analysisMap w transactionId = Some old"
      and "Channel old < length (chans w)"
  shows "analysisMap (InitTransaction w transactionId) transactionId
           = Some \<lparr>Channel = length (chans w), Counter = 0\<rparr>
       \<and> Channel old \<noteq> length (chans w)
       \<and> chans (InitTransaction w transactionId) = chans w @ [\<lparr>senders = [], closed = False\<rparr>]
       \<and> results (plugins (InitTransaction w transactionId)) transactionId = Some Map.empty"
  using assms
  by (simp add: InitTransaction_def make_chan_def PluginManager_InitTransaction_def)

theorem InitTransaction_replaces_witness:
  "\<exists>w. calls (example_world answering_bus)
          [CallInitTransaction ''t1'',
           CallAnalyze ''RequestHeaders'' ''t1'' ''hdrs'' [''local'']] = Returns w
       \<and> analysisMap w ''t1'' = Some \<lparr>Channel = 0, Counter = 1\<rparr>
       \<and> senders (chans w ! 0) = [Signal ''done'']
       \<and> results (plugins w) ''t1'' = Some [''local'' \<mapsto> example_result]
       \<and> analysisMap (InitTransaction w ''t1'') ''t1'' = Some \<lparr>Channel = 4, Counter = 0\<rparr>
       \<and> senders (chans (InitTransaction w ''t1'') ! 4) = []
       \<and> senders (chans (InitTransaction w ''t1'') ! 0) = [Signal ''done'']
       \<and> results (plugins (InitTransaction w ''t1'')) ''t1'' = Some Map.empty"
proof -
  obtain w where run: "calls (example_world answering_bus)
          [CallInitTransaction ''t1'',
           CallAnalyze ''RequestHeaders'' ''t1'' ''hdrs'' [''local'']] = Returns w"
    and live: "analysisMap w ''t1'' = Some \<lparr>Channel = 0, Counter = 1\<rparr>"
    and heap: "length (chans w) = 4"
    and parked: "senders (chans w ! 0) = [Signal ''done'']"
    and store: "results (plugins w) ''t1'' = Some [''local'' \<mapsto> example_result]"
    by (simp add: model_defs)
  have alloc: "Channel \<lparr>Channel = 0, Counter = 1\<rparr> < length (chans w)"
    by (simp add: heap)
  from InitTransaction_replaces [OF live alloc] heap parked
  have "analysisMap (InitTransaction w ''t1'') ''t1'' = Some \<lparr>Channel = 4, Counter = 0\<rparr>
      \<and> senders (chans (InitTransaction w ''t1'') ! 4) = []
      \<and> senders (chans (InitTransaction w ''t1'') ! 0) = [Signal ''done'']
      \<and> results (plugins (InitTransaction w ''t1'')) ''t1'' = Some Map.empty"
    by (simp add: nth_append)
  with run live parked store show ?thesis by blast
qed

text \<open>
  Claim C5 says that a synchronous model with the remote flag increments the
  asynchronous counter of the round. It increments the synchronous one: for the round
  over the one model \<^verbatim>\<open>remote\<close> (mode sync, remote flag set, accepted segment
  RequestHeaders) the loop publishes the input and ends with synchronous counter 1 and
  asynchronous counter 0, not 0 and 1.
\<close>

theorem sync_remote_counts_as_sync_counterexample:
  "\<not> IsAsync example_config ''remote''
   \<and> mpc_Remote (ModelPlugins_at example_config ''remote'')
   \<and> callPlugins_loop example_config ''hdrs'' RequestHeaders ''t1'' 0 [''remote''] ([], 0, 0)
       = ([GoAddToQueue ''remote'' ''t1'' ''hdrs''], 1, 0)
   \<and> callPlugins_loop example_config ''hdrs'' RequestHeaders ''t1'' 0 [''remote''] ([], 0, 0)
       \<noteq> ([GoAddToQueue ''remote'' ''t1'' ''hdrs''], 0, 1)"
  by (simp add: example_config_fields example_model_fields ModelPlugins_at_def IsAsync_def)

text \<open>
  Claim C5, amended. In one round over a model list, the models taken are those that the
  configuration knows with the requested segment type, in the order of the list. Each
  taken model whose mode is async is published with \<^verbatim>\<open>AddToQueue\<close> and counts in the
  asynchronous counter; each taken synchronous model with the remote flag is published
  with \<^verbatim>\<open>AddToQueue\<close> and counts in the synchronous counter, so its status gates the
  "done" of the round; each taken synchronous local model is started with \<^verbatim>\<open>Process\<close>
  on the round's synchronous channel and counts in the synchronous counter.
\<close>

theorem callPlugins_loop_counts:
  "callPlugins_loop conf input t transactionId modelPlugStatus models (started, syncCounter, asyncCounter)
     = (started @
          map (\<lambda>m. if IsAsync conf m \<or> mpc_Remote (ModelPlugins_at conf m)
                    then GoAddToQueue m transactionId input
                    else GoProcess m transactionId input t modelPlugStatus)
            (filter (\<lambda>m. ModelPlugins conf m \<noteq> None
                          \<and> mpc_PluginType (ModelPlugins_at conf m) = t) models),
        syncCounter +
          length (filter (\<lambda>m. ModelPlugins conf m \<noteq> None
                               \<and> mpc_PluginType (ModelPlugins_at conf m) = t
                               \<and> \<not> IsAsync conf m) models),
        asyncCounter +
          length (filter (\<lambda>m. ModelPlugins conf m \<noteq> None
                               \<and> mpc_PluginType (ModelPlugins_at conf m) = t
                               \<and> IsAsync conf m) models))"
  by (induction models arbitrary: started syncCounter asyncCounter) auto

text \<open>
  Claim C2 says that a model whose accepted segment is Everything is taken for every
  requested segment. It is not: the loop of \<^verbatim>\<open>callPlugins\<close> compares the accepted
  type of the configuration with the requested one for equality, and so does the gate of
  \<^verbatim>\<open>Process\<close>. The model \<^verbatim>\<open>any\<close> accepts Everything; a round for RequestHeaders
  over it starts nothing and leaves both counters at 0, and \<^verbatim>\<open>Process\<close> called for it
  with RequestHeaders sends the "incompatible type" status and does not call the plugin.
\<close>

theorem everything_is_not_a_wildcard_counterexample:
  "mpc_PluginType (ModelPlugins_at example_config ''any'') = Everything
   \<and> callPlugins_loop example_config ''hdrs'' RequestHeaders ''t1'' 0 [''any''] ([], 0, 0)
       = ([], 0, 0)
   \<and> modelPlugins (plugins (snd (make_chan (example_world silent_bus)))) ''any''
       = Some \<lparr>pluginType = Everything\<rparr>
   \<and> Process (snd (make_chan (example_world silent_bus))) ''any'' ''t1'' ''hdrs'' RequestHeaders 0
       = Returns ((example_world silent_bus)
           \<lparr>chans := [\<lparr>senders = [Status \<lparr>ModelID = ''any'', ms_ProbAttack = float64_zero,
                Err = Some ''plugin type Everything cannot process a request with incompatible type RequestHeaders''\<rparr>],
              closed = False\<rparr>]\<rparr>)"
  by (simp add: model_defs)

text \<open>
  Claim C2, amended. In a round, a model of the list is taken (started and counted)
  exactly when the configuration knows it with an accepted segment type equal to the
  requested one; so a model that accepts Everything is taken by \<^verbatim>\<open>Analyze\<close> only for
  the requested type Everything. In \<^verbatim>\<open>Process\<close>, a loaded plugin whose type is neither
  the requested one nor Everything gets the one status "incompatible type" and its
  process function is not called, and a loaded synchronous plugin of the requested type
  has its process function called. (What \<^verbatim>\<open>Process\<close> does with a plugin of type
  Everything for another requested type is left open here.)
\<close>

theorem taken_iff_same_type:
  "((callPlugins_loop conf input t transactionId modelPlugStatus [m] ([], 0, 0) \<noteq> ([], 0, 0))
      = (ModelPlugins conf m \<noteq> None \<and> mpc_PluginType (ModelPlugins_at conf m) = t))
   \<and> (modelPlugins (plugins w) m = Some mp \<and> pluginType mp \<noteq> t \<and> pluginType mp \<noteq> Everything \<longrightarrow>
        Process w m transactionId input t modelPlugStatus
          = send w modelPlugStatus
              (Status \<lparr>ModelID = m, ms_ProbAttack = float64_zero,
                 Err = Some (''plugin type '' @ ModelPluginType_String (pluginType mp)
                             @ '' cannot process a request with incompatible type ''
                             @ ModelPluginType_String t)\<rparr>))
   \<and> (modelPlugins (plugins w) m = Some mp \<and> pluginType mp = t
        \<and> mpc_Mode (ModelPlugins_at (config w) m) \<noteq> ''async''
        \<and> modelProcessFunc (plugins w) m = Some process \<longrightarrow>
        (\<exists>w' st. Process w m transactionId input t modelPlugStatus = send w' modelPlugStatus (Status st)
            \<and> invoked w' = invoked w @ [ProcessCall m \<lparr>TransactionId = transactionId, Payload = input\<rparr>]))"
  by (auto simp: Process_def Let_def split: prod.splits option.splits)

theorem taken_iff_same_type_witness:
  "callPlugins_loop example_config ''all'' Everything ''t1'' 0 [''any''] ([], 0, 0) \<noteq> ([], 0, 0)
   \<and> callPlugins_loop example_config ''body'' RequestBody ''t1'' 0 [''local''] ([], 0, 0) = ([], 0, 0)
   \<and> Process (snd (make_chan (example_world silent_bus))) ''local'' ''t1'' ''body'' RequestBody 0
       = Returns ((example_world silent_bus)
           \<lparr>chans := [\<lparr>senders = [Status \<lparr>ModelID = ''local'', ms_ProbAttack = float64_zero,
                Err = Some ''plugin type RequestHeaders cannot process a request with incompatible type RequestBody''\<rparr>],
              closed = False\<rparr>]\<rparr>)
   \<and> (\<exists>w' st. Process (snd (make_chan (example_world silent_bus))) ''any'' ''t1'' ''all'' Everything 0
                  = send w' 0 (Status st)
          \<and> invoked w' = [ProcessCall ''any'' \<lparr>TransactionId = ''t1'', Payload = ''all''\<rparr>])"
proof -
  let ?w = "snd (make_chan (example_world silent_bus))"
  have heap: "chans ?w = [\<lparr>senders = [], closed = False\<rparr>]" and none: "invoked ?w = []"
    by (simp_all add: model_defs)
  have known: "ModelPlugins example_config ''any'' \<noteq> None
      \<and> mpc_PluginType (ModelPlugins_at example_config ''any'') = Everything"
    and other: "\<not> (ModelPlugins example_config ''local'' \<noteq> None
      \<and> mpc_PluginType (ModelPlugins_at example_config ''local'') = RequestBody)"
    by (simp_all add: model_defs)
  have loaded: "modelPlugins (plugins ?w) ''local'' = Some \<lparr>pluginType = RequestHeaders\<rparr>
      \<and> pluginType \<lparr>pluginType = RequestHeaders\<rparr> \<noteq> RequestBody
      \<and> pluginType \<lparr>pluginType = RequestHeaders\<rparr> \<noteq> Everything"
    and same: "modelPlugins (plugins ?w) ''any'' = Some \<lparr>pluginType = Everything\<rparr>
      \<and> pluginType \<lparr>pluginType = Everything\<rparr> = Everything
      \<and> mpc_Mode (ModelPlugins_at (config ?w) ''any'') \<noteq> ''async''
      \<and> modelProcessFunc (plugins ?w) ''any'' = Some (\<lambda>inp. (example_result, None))"
    by (simp_all add: model_defs)
  note a = taken_iff_same_type [where conf = example_config and input = "''all''"
      and t = Everything and transactionId = "''t1''" and modelPlugStatus = 0 and m = "''any''"
      and w = ?w and mp = "\<lparr>pluginType = Everything\<rparr>"
      and process = "\<lambda>inp. (example_result, None)"]
  note b = taken_iff_same_type [where conf = example_config and input = "''body''"
      and t = RequestBody and transactionId = "''t1''" and modelPlugStatus = 0 and m = "''local''"
      and w = ?w and mp = "\<lparr>pluginType = RequestHeaders\<rparr>"]
  from a known same have
    "callPlugins_loop example_config ''all'' Everything ''t1'' 0 [''any''] ([], 0, 0) \<noteq> ([], 0, 0)"
    "\<exists>w' st. Process ?w ''any'' ''t1'' ''all'' Everything 0 = send w' 0 (Status st)
        \<and> invoked w' = invoked ?w @ [ProcessCall ''any'' \<lparr>TransactionId = ''t1'', Payload = ''all''\<rparr>]"
    by blast+
  moreover from b other loaded have
    "callPlugins_loop example_config ''body'' RequestBody ''t1'' 0 [''local''] ([], 0, 0) = ([], 0, 0)"
    "Process ?w ''local'' ''t1'' ''body'' RequestBody 0
       = send ?w 0
           (Status \<lparr>ModelID = ''local'', ms_ProbAttack = float64_zero,
              Err = Some (''plugin type '' @ ModelPluginType_String (pluginType \<lparr>pluginType = RequestHeaders\<rparr>)
                          @ '' cannot process a request with incompatible type ''
                          @ ModelPluginType_String RequestBody)\<rparr>)"
    by blast+
  ultimately show ?thesis
    using heap none
    by (simp add: send_open make_chan_def example_world_fields ModelPluginType_String_def
        ModelPluginType_defs)
qed

section \<open>Properties of the plugin manager\<close>

text \<open>
  Claim C6 says that whenever the process function returns a result and no error, the
  result is stored and a status without error is sent. \<^verbatim>\<open>Process\<close> first loads the
  result store of the transaction, and when there is none (no
  \<^verbatim>\<open>InitTransaction\<close> for the id) it sends the error "transaction results not found"
  and stores nothing. Here the plugin \<^verbatim>\<open>local\<close> is loaded, synchronous and of the
  requested type, its process function returns a result and no error, and the
  transaction \<^verbatim>\<open>t1\<close> was never initialised.
\<close>

theorem Process_without_result_store_counterexample:
  "modelPlugins (plugins (snd (make_chan (example_world silent_bus)))) ''local''
     = Some \<lparr>pluginType = RequestHeaders\<rparr>
   \<and> mpc_Mode (ModelPlugins_at (config (snd (make_chan (example_world silent_bus)))) ''local'')
     = ''sync''
   \<and> map_option (\<lambda>process. process \<lparr>TransactionId = ''t1'', Payload = ''hdrs''\<rparr>)
        (modelProcessFunc (plugins (snd (make_chan (example_world silent_bus)))) ''local'')
     = Some (example_result, None)
   \<and> Process (snd (make_chan (example_world silent_bus))) ''local'' ''t1'' ''hdrs'' RequestHeaders 0
     = Returns ((example_world silent_bus)
         \<lparr>chans := [\<lparr>senders = [Status \<lparr>ModelID = ''local'', ms_ProbAttack = float64_zero,
                                       Err = Some ''transaction results not found''\<rparr>],
                      closed = False\<rparr>],
          invoked := [ProcessCall ''local'' \<lparr>TransactionId = ''t1'', Payload = ''hdrs''\<rparr>]\<rparr>)
   \<and> results (plugins (example_world silent_bus)) ''t1'' = None"
  by (simp add: model_defs)

text \<open>
  Claim C6, amended. For every call of \<^verbatim>\<open>Process\<close>: if the model id is not a loaded
  model plugin, one status with the error "model plugin not found" is sent on the
  channel and the state is otherwise as before, so the result store is unchanged. If the
  plugin is loaded with the requested type and is not asynchronous, its process function
  is called once, and then: if it returns a result and no error and the transaction has a
  result store, the result is stored as it is under the transaction and the model id, and
  one status with the probability of the result and no error is sent; if it returns a
  result and no error and the transaction has no result store, one status with the error
  "transaction results not found" is sent and nothing is stored; if it returns an error,
  one status with that error is sent and nothing is stored. In each case the state
  handed to the one send shows what was stored.
\<close>

theorem Process_outcomes:
  "(modelPlugins (plugins w) modelID = None \<longrightarrow>
      Process w modelID transactionId payload t modelPlugStatus
        = send w modelPlugStatus
            (Status \<lparr>ModelID = modelID, ms_ProbAttack = float64_zero,
                      Err = Some ''model plugin not found''\<rparr>))
   \<and> (modelPlugins (plugins w) modelID = Some mp \<and> pluginType mp = t
        \<and> mpc_Mode (ModelPlugins_at (config w) modelID) \<noteq> ''async''
        \<and> modelProcessFunc (plugins w) modelID = Some process \<longrightarrow>
        (process \<lparr>TransactionId = transactionId, Payload = payload\<rparr> = (res, None)
           \<and> results (plugins w) transactionId = Some store \<longrightarrow>
           Process w modelID transactionId payload t modelPlugStatus
             = send (w\<lparr>invoked := invoked w @ [ProcessCall modelID
                                     \<lparr>TransactionId = transactionId, Payload = payload\<rparr>],
                       plugins := (plugins w)\<lparr>results :=
                          (results (plugins w))(transactionId \<mapsto> store(modelID \<mapsto> res))\<rparr>\<rparr>)
                 modelPlugStatus
                 (Status \<lparr>ModelID = modelID, ms_ProbAttack = ProbAttack res, Err = None\<rparr>))
        \<and> (process \<lparr>TransactionId = transactionId, Payload = payload\<rparr> = (res, None)
           \<and> results (plugins w) transactionId = None \<longrightarrow>
           Process w modelID transactionId payload t modelPlugStatus
             = send (w\<lparr>invoked := invoked w @ [ProcessCall modelID
                                     \<lparr>TransactionId = transactionId, Payload = payload\<rparr>]\<rparr>)
                 modelPlugStatus
                 (Status \<lparr>ModelID = modelID, ms_ProbAttack = float64_zero,
                           Err = Some ''transaction results not found''\<rparr>))
        \<and> (process \<lparr>TransactionId = transactionId, Payload = payload\<rparr> = (res, Some err) \<longrightarrow>
           Process w modelID transactionId payload t modelPlugStatus
             = send (w\<lparr>invoked := invoked w @ [ProcessCall modelID
                                     \<lparr>TransactionId = transactionId, Payload = payload\<rparr>]\<rparr>)
                 modelPlugStatus
                 (Status \<lparr>ModelID = modelID, ms_ProbAttack = float64_zero, Err = Some err\<rparr>)))"
  by (auto simp: Process_def Let_def)

theorem Process_outcomes_witness:
  "Process (snd (make_chan (InitTransaction (example_world silent_bus) ''t1'')))
       ''ghost'' ''t1'' ''hdrs'' RequestHeaders 1
     = send (snd (make_chan (InitTransaction (example_world silent_bus) ''t1''))) 1
         (Status \<lparr>ModelID = ''ghost'', ms_ProbAttack = float64_zero,
                   Err = Some ''model plugin not found''\<rparr>)
   \<and> (\<exists>w'. Process (snd (make_chan (InitTransaction (example_world silent_bus) ''t1'')))
                ''local'' ''t1'' ''hdrs'' RequestHeaders 1 = Returns w'
          \<and> results (plugins w') ''t1'' = Some [''local'' \<mapsto> example_result]
          \<and> senders (chans w' ! 1)
              = [Status \<lparr>ModelID = ''local'', ms_ProbAttack = Float64 42, Err = None\<rparr>])
   \<and> (\<exists>w'. Process (snd (make_chan (InitTransaction (example_world silent_bus) ''t1'')))
                ''faulty'' ''t1'' ''hdrs'' RequestHeaders 1 = Returns w'
          \<and> results (plugins w') ''t1'' = Some Map.empty
          \<and> senders (chans w' ! 1)
              = [Status \<lparr>ModelID = ''faulty'', ms_ProbAttack = float64_zero,
                         Err = Some ''model failed''\<rparr>])"
proof -
  let ?w = "snd (make_chan (InitTransaction (example_world silent_bus) ''t1''))"
  have heap: "chans ?w = [\<lparr>senders = [], closed = False\<rparr>, \<lparr>senders = [], closed = False\<rparr>]"
    and store: "results (plugins ?w) ''t1'' = Some Map.empty"
    and ghost: "modelPlugins (plugins ?w) ''ghost'' = None"
    by (simp_all add: model_defs)
  have local: "modelPlugins (plugins ?w) ''local'' = Some \<lparr>pluginType = RequestHeaders\<rparr>
      \<and> pluginType \<lparr>pluginType = RequestHeaders\<rparr> = RequestHeaders
      \<and> mpc_Mode (ModelPlugins_at (config ?w) ''local'') \<noteq> ''async''
      \<and> modelProcessFunc (plugins ?w) ''local'' = Some (\<lambda>inp. (example_result, None))"
    and faulty: "modelPlugins (plugins ?w) ''faulty'' = Some \<lparr>pluginType = RequestHeaders\<rparr>
      \<and> pluginType \<lparr>pluginType = RequestHeaders\<rparr> = RequestHeaders
      \<and> mpc_Mode (ModelPlugins_at (config ?w) ''faulty'') \<noteq> ''async''
      \<and> modelProcessFunc (plugins ?w) ''faulty'' = Some (\<lambda>inp. (zero_result, Some ''model failed''))"
    by (simp_all add: model_defs)
  have "Process ?w ''ghost'' ''t1'' ''hdrs'' RequestHeaders 1
     = send ?w 1 (Status \<lparr>ModelID = ''ghost'', ms_ProbAttack = float64_zero,
                           Err = Some ''model plugin not found''\<rparr>)"
    using Process_outcomes [where w = ?w and modelID = "''ghost''" and transactionId = "''t1''"
        and payload = "''hdrs''" and t = RequestHeaders and modelPlugStatus = 1] ghost
    by blast
  moreover have "Process ?w ''local'' ''t1'' ''hdrs'' RequestHeaders 1
     = send (?w\<lparr>invoked := invoked ?w @ [ProcessCall ''local''
                                 \<lparr>TransactionId = ''t1'', Payload = ''hdrs''\<rparr>],
                 plugins := (plugins ?w)\<lparr>results :=
                    (results (plugins ?w))(''t1'' \<mapsto> Map.empty(''local'' \<mapsto> example_result))\<rparr>\<rparr>)
         1 (Status \<lparr>ModelID = ''local'', ms_ProbAttack = ProbAttack example_result, Err = None\<rparr>)"
    using Process_outcomes [where w = ?w and modelID = "''local''" and transactionId = "''t1''"
        and payload = "''hdrs''" and t = RequestHeaders and modelPlugStatus = 1
        and mp = "\<lparr>pluginType = RequestHeaders\<rparr>"
        and process = "\<lambda>inp. (example_result, None)" and res = example_result
        and store = Map.empty]
      local store
    by blast
  moreover have "Process ?w ''faulty'' ''t1'' ''hdrs'' RequestHeaders 1
     = send (?w\<lparr>invoked := invoked ?w @ [ProcessCall ''faulty''
                                 \<lparr>TransactionId = ''t1'', Payload = ''hdrs''\<rparr>]\<rparr>)
         1 (Status \<lparr>ModelID = ''faulty'', ms_ProbAttack = float64_zero,
                     Err = Some ''model failed''\<rparr>)"
    using Process_outcomes [where w = ?w and modelID = "''faulty''" and transactionId = "''t1''"
        and payload = "''hdrs''" and t = RequestHeaders and modelPlugStatus = 1
        and mp = "\<lparr>pluginType = RequestHeaders\<rparr>"
        and process = "\<lambda>inp. (zero_result, Some ''model failed'')" and res = zero_result
        and err = "''model failed''"]
      faulty
    by blast
  ultimately show ?thesis
    using heap store by (simp add: send_open example_result_def)
qed

section \<open>Closing a transaction\<close>

text \<open>Closing channels changes the channel heap only.\<close>

lemma close_and_drain_frame:
  "close_and_drain w c = Returns w' \<Longrightarrow>
     plugins w' = plugins w \<and> analysisMap w' = analysisMap w \<and> config w' = config w"
  by (auto simp: close_and_drain_def split: if_splits)

lemma close_all_frame:
  "close_all w cs = Returns w' \<Longrightarrow>
     plugins w' = plugins w \<and> analysisMap w' = analysisMap w \<and> config w' = config w"
proof (induction cs arbitrary: w)
  case Nil
  then show ?case by simp
next
  case (Cons c cs)
  then obtain w1 where first: "close_and_drain w c = Returns w1"
    and others: "close_all w1 cs = Returns w'"
    by (cases "close_and_drain w c") auto
  from Cons.IH [OF others] close_and_drain_frame [OF first] show ?case by simp
qed

text \<open>
  Claim C3 says that after \<^verbatim>\<open>CloseTransaction\<close> nothing keyed by the transaction id
  is left in any map, the registry of asynchronous channels included.
  \<^verbatim>\<open>CloseTransaction\<close> works on the registry of synchronous channels and on the result
  store only. After \<^verbatim>\<open>InitTransaction\<close>, one \<^verbatim>\<open>Analyze\<close> over the asynchronous
  model \<^verbatim>\<open>later\<close> whose answer has not come, \<^verbatim>\<open>CheckTransaction\<close> and
  \<^verbatim>\<open>CloseTransaction\<close>, the registry of asynchronous channels still has its entry for
  \<^verbatim>\<open>t1\<close>.
\<close>

theorem CloseTransaction_keeps_async_registry_counterexample:
  "calls (example_world silent_bus)
     [CallInitTransaction ''t1'',
      CallAnalyze ''RequestHeaders'' ''t1'' ''hdrs'' [''later''],
      CallCheckTransaction ''t1'' ''simple'' Map.empty,
      CallCloseTransaction ''t1'']
     = Returns closed_world
   \<and> asyncModelsChannels (plugins closed_world) ''t1'' = Some [(''RequestHeaders'', 3)]"
  by (simp add: closed_world_def model_defs numeral_3_eq_3)

text \<open>
  With no round at all the registry of synchronous channels has no entry for the id; the
  plugin manager then logs that the transaction was not found and returns, and the result
  store made by \<^verbatim>\<open>InitTransaction\<close> stays.
\<close>

lemma CloseTransaction_without_round:
  "CloseTransaction (InitTransaction (example_world silent_bus) ''t1'') ''t1''
     = Returns ((InitTransaction (example_world silent_bus) ''t1'')\<lparr>analysisMap := Map.empty\<rparr>)
   \<and> results (plugins ((InitTransaction (example_world silent_bus) ''t1'')
                          \<lparr>analysisMap := Map.empty\<rparr>)) ''t1''
     = Some Map.empty"
  by (simp add: model_defs)

text \<open>
  Claim C3, amended. When \<^verbatim>\<open>CloseTransaction\<close> returns, the \<^verbatim>\<open>transactionSync\<close>
  entry of the id is removed and the registry of synchronous channels has no entry for
  the id; if that registry had an entry for the id when the call began (a round had
  registered its channels), the result store of the id is removed as well. The registry
  of asynchronous channels is not touched by \<^verbatim>\<open>CloseTransaction\<close>: an entry for the id
  stays until \<^verbatim>\<open>RemoveAsyncModelChannel\<close> removes it.
\<close>

theorem CloseTransaction_removes:
  assumes "CloseTransaction w transactionID = Returns w'"
  shows "analysisMap w' transactionID = None
       \<and> syncModelsChannels (plugins w') transactionID = None
       \<and> (syncModelsChannels (plugins w) transactionID \<noteq> None \<longrightarrow>
            results (plugins w') transactionID = None)
       \<and> asyncModelsChannels (plugins w') = asyncModelsChannels (plugins w)"
proof (cases "syncModelsChannels (plugins w) transactionID")
  case None
  with assms show ?thesis
    by (auto simp: CloseTransaction_def PluginManager_CloseTransaction_def)
next
  case (Some transactionMap)
  with assms obtain w1 where closing: "close_all w (map snd transactionMap) = Returns w1"
    by (cases "close_all w (map snd transactionMap)")
      (auto simp: CloseTransaction_def PluginManager_CloseTransaction_def)
  from close_all_frame [OF closing] assms Some closing show ?thesis
    by (auto simp: CloseTransaction_def PluginManager_CloseTransaction_def)
qed

theorem CloseTransaction_removes_witness:
  "\<exists>w w'. calls (example_world silent_bus)
             [CallInitTransaction ''t1'',
              CallAnalyze ''RequestHeaders'' ''t1'' ''hdrs'' [''local'', ''later''],
              CallCheckTransaction ''t1'' ''simple'' Map.empty] = Returns w
       \<and> analysisMap w ''t1'' \<noteq> None
       \<and> syncModelsChannels (plugins w) ''t1'' \<noteq> None
       \<and> results (plugins w) ''t1'' \<noteq> None
       \<and> asyncModelsChannels (plugins w) ''t1'' \<noteq> None
       \<and> CloseTransaction w ''t1'' = Returns w'
       \<and> analysisMap w' ''t1'' = None
       \<and> syncModelsChannels (plugins w') ''t1'' = None
       \<and> results (plugins w') ''t1'' = None
       \<and> asyncModelsChannels (plugins w') ''t1'' \<noteq> None"
proof -
  obtain w w' where run: "calls (example_world silent_bus)
             [CallInitTransaction ''t1'',
              CallAnalyze ''RequestHeaders'' ''t1'' ''hdrs'' [''local'', ''later''],
              CallCheckTransaction ''t1'' ''simple'' Map.empty] = Returns w"
    and before: "analysisMap w ''t1'' \<noteq> None" "syncModelsChannels (plugins w) ''t1'' \<noteq> None"
      "results (plugins w) ''t1'' \<noteq> None" "asyncModelsChannels (plugins w) ''t1'' \<noteq> None"
    and closing: "CloseTransaction w ''t1'' = Returns w'"
    by (simp add: model_defs)
  from CloseTransaction_removes [OF closing] before
  have "analysisMap w' ''t1'' = None \<and> syncModelsChannels (plugins w') ''t1'' = None
      \<and> results (plugins w') ''t1'' = None \<and> asyncModelsChannels (plugins w') ''t1'' \<noteq> None"
    by simp
  with run before closing show ?thesis by blast
qed

section \<open>Rounds and the gate of CheckTransaction\<close>































end
